theory Spec2Isabelle
  imports Main "HOL-Library.Word" "HOL-Library.Mapping" "HOL-Library.AList_Mapping"
begin

unbundle bit_operations_syntax

section \<open>Data model\<close>

text \<open>
  The instruction descriptors of \<^verbatim>\<open>instructions.cpp\<close>, one constructor for each
  descriptor that \<^verbatim>\<open>CPU::decode\<close> can return (the decoder returns a reference to a
  process-wide constant; the constructor is its identity).
\<close>

datatype instruction_t =
    instr_NOP | instr_LD_N_SP | instr_HALT | instr_LD_D_D | instr_LD_R_N
  | instr_LD_R_A_R | instr_ADD_HL_R | instr_INC_DEC_R | instr_INC_DEC_D
  | instr_RLC_RRC | instr_STOP | instr_JR_N | instr_LD_D_N | instr_LDID_HL_A
  | instr_DAA | instr_CPL | instr_SCF_CCF | instr_ALU_A_N_D | instr_PUSH_POP
  | instr_RET | instr_RST | instr_JP | instr_CALL | instr_ADD_SP_N
  | instr_LD_N_A_N | instr_LD_xxx_A | instr_LD_HL_SP | instr_LD_JP_HL
  | instr_DI_EI | instr_CB_EXT | instr_UNUSED_OPS | instr_MISSING

text \<open>
  A breakpoint. The callback is a nullable function object in the source; here it is
  the identifier of a callback, resolved through the environment, or \<open>None\<close> when the
  function object is empty.
\<close>

record breakpoint_t =
  callback :: "nat option"
  break_on_steps_bp :: int
  verbose_instr :: bool

text \<open>
  One line typed at the debug console, after \<^verbatim>\<open>split\<close> and the argument conversions of
  \<^verbatim>\<open>execute_commands\<close>. \<open>Cmd_info\<close> stands for every line that only prints and stays
  at the prompt (help, read, an unknown command, a command with too few parameters);
  \<open>Cmd_none\<close> is the empty line or a line starting with a blank.
\<close>

datatype command =
    Cmd_none | Cmd_continue | Cmd_step int | Cmd_break "16 word" | Cmd_clear
  | Cmd_verbose | Cmd_run | Cmd_quit | Cmd_reset | Cmd_write "16 word" "8 word"
  | Cmd_vblank | Cmd_debug | Cmd_info

text \<open>
  The state reachable from the CPU: its register file, its private members, the
  breakpoint table, the machine's verbose flag, the memory bus (a flat array of bytes),
  the interrupt registers IF and IE of the I/O unit, and the lines still to be read
  from standard input. The members are declared in \<^verbatim>\<open>cpu.hpp\<close>; the cycle counter is
  the unsigned 64-bit clock of the specification, and the small signed counters
  (\<open>m_intr_pending\<close>, \<open>m_haltbug\<close>, the step counters) are integers, which the code
  keeps far from any machine bound.
\<close>

record machine =
  af :: "16 word"
  bc :: "16 word"
  de :: "16 word"
  hl :: "16 word"
  sp :: "16 word"
  pc :: "16 word"
  m_cycles_total :: "64 word"
  m_cur_opcode :: "8 word"
  m_running :: bool
  m_asleep :: bool
  m_haltbug :: int
  m_intr_master_enable :: bool
  m_intr_pending :: int
  m_break :: bool
  m_break_steps_cnt :: int
  m_break_steps :: int
  m_breakpoints :: "(16 word, breakpoint_t) mapping"
  m_last_flags :: "8 word"
  verbose_instructions :: bool
  memory :: "16 word \<Rightarrow> 8 word"
  reg_IF :: "8 word"
  reg_IE :: "8 word"
  console_input :: "command list"

text \<open>
  The collaborators of the CPU that live outside \<^verbatim>\<open>cpu.cpp\<close>: the instruction handlers
  (each returns the new state and the T-states used, or \<open>None\<close> when it aborts), the
  registry of breakpoint callbacks, and the machine, GPU and I/O entry points that the
  debug console calls.
\<close>

record env =
  handler :: "instruction_t \<Rightarrow> machine \<Rightarrow> 8 word \<Rightarrow> (machine \<times> 32 word) option"
  callbacks :: "nat \<Rightarrow> machine \<Rightarrow> 8 word \<Rightarrow> machine option"
  machine_reset :: "machine \<Rightarrow> machine"
  render_and_vblank :: "machine \<Rightarrow> machine"
  debugint_callback :: "machine \<Rightarrow> machine"
  default_pausepoint :: "16 word \<Rightarrow> machine \<Rightarrow> machine"

section \<open>The CPU of \<^verbatim>\<open>libgbc/cpu.cpp\<close>\<close>

subsection \<open>Reset\<close>

definition reset :: "machine \<Rightarrow> machine" where
  "reset s = s\<lparr>af := 0x01b0, bc := 0x0013, de := 0x00d8, hl := 0x014d,
               sp := 0xfffe, pc := 0x0, m_cycles_total := 0\<rparr>"

subsection \<open>Decoder\<close>

definition decode :: "8 word \<Rightarrow> instruction_t" where
  "decode opcode =
    (if opcode = 0 then instr_NOP
     else if opcode = 0x08 then instr_LD_N_SP
     else if opcode AND 0xc0 = 0x40 then
       (if opcode = 0x76 then instr_HALT else instr_LD_D_D)
     else if opcode AND 0xcf = 0x1 then instr_LD_R_N
     else if opcode AND 0xe7 = 0x2 then instr_LD_R_A_R
     else if opcode AND 0xcf = 0x9 then instr_ADD_HL_R
     else if opcode AND 0xc7 = 0x3 then instr_INC_DEC_R
     else if opcode AND 0xc6 = 0x4 then instr_INC_DEC_D
     else if opcode AND 0xe7 = 0x7 then instr_RLC_RRC
     else if opcode = 0x10 then instr_STOP
     else if opcode = 0x18 then instr_JR_N
     else if opcode AND 0xe7 = 0x20 then instr_JR_N
     else if opcode AND 0xc7 = 0x6 then instr_LD_D_N
     else if opcode AND 0xe7 = 0x22 then instr_LDID_HL_A
     else if opcode = 0x27 then instr_DAA
     else if opcode = 0x2f then instr_CPL
     else if opcode AND 0xf7 = 0x37 then instr_SCF_CCF
     else if opcode AND 0xc7 = 0xc6 then instr_ALU_A_N_D
     else if opcode AND 0xc0 = 0x80 then instr_ALU_A_N_D
     else if opcode AND 0xcb = 0xc1 then instr_PUSH_POP
     else if opcode AND 0xe7 = 0xc0 then instr_RET
     else if opcode AND 0xef = 0xc9 then instr_RET
     else if opcode AND 0xc7 = 0xc7 then instr_RST
     else if opcode AND 0xff = 0xc3 then instr_JP
     else if opcode AND 0xe7 = 0xc2 then instr_JP
     else if opcode AND 0xff = 0xc4 then instr_CALL
     else if opcode AND 0xcd = 0xcd then instr_CALL
     else if opcode = 0xe8 then instr_ADD_SP_N
     else if opcode AND 0xef = 0xea then instr_LD_N_A_N
     else if opcode AND 0xef = 0xe0 then instr_LD_xxx_A
     else if opcode AND 0xef = 0xe2 then instr_LD_xxx_A
     else if opcode AND 0xef = 0xea then instr_LD_xxx_A
     else if opcode = 0xf8 then instr_LD_HL_SP
     else if opcode AND 0xef = 0xe9 then instr_LD_JP_HL
     else if opcode AND 0xf7 = 0xf3 then instr_DI_EI
     else if opcode = 0xcb then instr_CB_EXT
     else if opcode = 0xdb then instr_UNUSED_OPS
     else if opcode = 0xeb then instr_UNUSED_OPS
     else if opcode = 0xec then instr_UNUSED_OPS
     else if opcode = 0xe4 then instr_UNUSED_OPS
     else if opcode = 0xfc then instr_UNUSED_OPS
     else if opcode = 0xf4 then instr_UNUSED_OPS
     else instr_MISSING)"

subsection \<open>Collaborators reached through narrow interfaces\<close>

text \<open>
  Modelled from the spec: the memory bus (\<^verbatim>\<open>memory.cpp\<close>) is not among the sources.
  Section 6 of the specification gives it as \<open>read8\<close>, \<open>read16\<close> (little-endian),
  \<open>write8\<close> and \<open>write16\<close> over 16-bit addresses; it is taken here as a flat array
  of bytes, the second byte of a 16-bit access at the next address modulo \<open>2^16\<close>.
\<close>

definition read8 :: "machine \<Rightarrow> 16 word \<Rightarrow> 8 word" where
  "read8 s addr = memory s addr"

definition read16 :: "machine \<Rightarrow> 16 word \<Rightarrow> 16 word" where
  "read16 s addr = ucast (memory s addr) OR push_bit 8 (ucast (memory s (addr + 1)))"

definition write8 :: "machine \<Rightarrow> 16 word \<Rightarrow> 8 word \<Rightarrow> machine" where
  "write8 s addr v = s\<lparr>memory := (memory s)(addr := v)\<rparr>"

definition write16 :: "machine \<Rightarrow> 16 word \<Rightarrow> 16 word \<Rightarrow> machine" where
  "write16 s addr v =
     s\<lparr>memory := (memory s)(addr := ucast v, addr + 1 := ucast (drop_bit 8 v))\<rparr>"

text \<open>
  Modelled from the spec: the inline accessors of \<^verbatim>\<open>cpu.hpp\<close>, which is not among
  the sources. Sections 3, 4.2 and 4.6 of the specification name the members they read
  or write: \<open>running\<close>, \<open>asleep\<close>, \<open>ime\<close>, the one-shot \<open>break_now\<close> flag, and F as
  the low byte of AF.
\<close>

definition is_running :: "machine \<Rightarrow> bool" where
  "is_running s = m_running s"

definition is_halting :: "machine \<Rightarrow> bool" where
  "is_halting s = m_asleep s"

definition ime :: "machine \<Rightarrow> bool" where
  "ime s = m_intr_master_enable s"

definition break_now :: "machine \<Rightarrow> machine" where
  "break_now s = s\<lparr>m_break := True\<rparr>"

definition flags :: "machine \<Rightarrow> 8 word" where
  "flags s = ucast (af s)"

subsection \<open>Cycle counter and power state\<close>

definition incr_cycles :: "machine \<Rightarrow> int \<Rightarrow> machine option" where
  "incr_cycles s count =
     (if count \<ge> 0 then Some (s\<lparr>m_cycles_total := m_cycles_total s + of_int count\<rparr>)
      else None)"

definition stop :: "machine \<Rightarrow> machine" where
  "stop s = s\<lparr>m_running := False\<rparr>"

definition wait :: "machine \<Rightarrow> machine" where
  "wait s = s\<lparr>m_asleep := True, m_haltbug := 2\<rparr>"

definition readop8 :: "machine \<Rightarrow> int \<Rightarrow> 8 word" where
  "readop8 s dx = read8 s (pc s + of_int dx)"

definition readop16 :: "machine \<Rightarrow> int \<Rightarrow> 16 word" where
  "readop16 s dx = read16 s (pc s + of_int dx)"

definition read_hl :: "machine \<Rightarrow> 8 word" where
  "read_hl s = read8 s (hl s)"

definition write_hl :: "machine \<Rightarrow> 8 word \<Rightarrow> machine" where
  "write_hl s v = write8 s (hl s) v"

definition push_and_jump :: "machine \<Rightarrow> 16 word \<Rightarrow> machine \<times> 32 word" where
  "push_and_jump s address =
     (let s1 = s\<lparr>sp := sp s - 2\<rparr>;
          s2 = write16 s1 (sp s1) (pc s1)
      in (s2\<lparr>pc := address\<rparr>, 8))"

subsection \<open>Interrupts\<close>

text \<open>
  Modelled from the spec: the I/O unit (\<^verbatim>\<open>io.hpp\<close>, \<^verbatim>\<open>io.cpp\<close>) is not among the
  sources. Section 6 gives \<open>interrupt_mask\<close> as \<open>IF & IE & 0x1F\<close> and \<open>interrupt\<close> as
  clearing the IF bit of the source and calling back \<open>push_and_jump\<close> with its vector;
  section 4.4 gives the bit of each source and section 8 its vector.
\<close>

record interrupt_t =
  intr_mask :: "8 word"
  fixed_address :: "16 word"

definition vblank :: interrupt_t where
  "vblank = \<lparr>intr_mask = 0x01, fixed_address = 0x40\<rparr>"

definition lcd_stat :: interrupt_t where
  "lcd_stat = \<lparr>intr_mask = 0x02, fixed_address = 0x48\<rparr>"

definition timer :: interrupt_t where
  "timer = \<lparr>intr_mask = 0x04, fixed_address = 0x50\<rparr>"

definition serial :: interrupt_t where
  "serial = \<lparr>intr_mask = 0x08, fixed_address = 0x58\<rparr>"

definition joypad :: interrupt_t where
  "joypad = \<lparr>intr_mask = 0x10, fixed_address = 0x60\<rparr>"

definition interrupt_mask :: "machine \<Rightarrow> 8 word" where
  "interrupt_mask s = reg_IF s AND reg_IE s AND 0x1F"

definition interrupt :: "machine \<Rightarrow> interrupt_t \<Rightarrow> machine" where
  "interrupt s intr =
     fst (push_and_jump (s\<lparr>reg_IF := reg_IF s AND NOT (intr_mask intr)\<rparr>)
            (fixed_address intr))"

definition enable_interrupts :: "machine \<Rightarrow> machine" where
  "enable_interrupts s = s\<lparr>m_intr_pending := 2\<rparr>"

definition disable_interrupts :: "machine \<Rightarrow> machine" where
  "disable_interrupts s = s\<lparr>m_intr_pending := - 2\<rparr>"

text \<open>
  \<^verbatim>\<open>CPU::handle_interrupts\<close> in its three statements: the countdown of the delayed
  toggle, the dispatch of the pending interrupt of highest priority, and the countdown
  of the HALT-bug counter.
\<close>

definition ime_countdown :: "machine \<Rightarrow> machine" where
  "ime_countdown s =
     (if m_intr_pending s > 0 then
        (let s1 = s\<lparr>m_intr_pending := m_intr_pending s - 1\<rparr>
         in if m_intr_pending s1 = 0 then s1\<lparr>m_intr_master_enable := True\<rparr> else s1)
      else if m_intr_pending s < 0 then
        (let s1 = s\<lparr>m_intr_pending := m_intr_pending s + 1\<rparr>
         in if m_intr_pending s1 = 0 then s1\<lparr>m_intr_master_enable := False\<rparr> else s1)
      else s)"

definition dispatch_interrupt :: "machine \<Rightarrow> machine" where
  "dispatch_interrupt s =
     (let imask = interrupt_mask s
      in if ime s \<and> imask \<noteq> 0x0 then
           (let s1 = s\<lparr>m_asleep := False, m_intr_master_enable := False,
                       m_intr_pending := 0\<rparr>
            in if imask AND 0x1 \<noteq> 0 then interrupt s1 vblank
               else if imask AND 0x2 \<noteq> 0 then interrupt s1 lcd_stat
               else if imask AND 0x4 \<noteq> 0 then interrupt s1 timer
               else if imask AND 0x8 \<noteq> 0 then interrupt s1 serial
               else if imask AND 0x10 \<noteq> 0 then interrupt s1 joypad
               else break_now s1)
         else s)"

definition haltbug_countdown :: "machine \<Rightarrow> machine" where
  "haltbug_countdown s =
     (if m_asleep s = False then
        (if m_haltbug s \<noteq> 0 then s\<lparr>m_haltbug := m_haltbug s - 1\<rparr> else s)
      else s)"

definition handle_interrupts :: "machine \<Rightarrow> machine" where
  "handle_interrupts s = haltbug_countdown (dispatch_interrupt (ime_countdown s))"

subsection \<open>Debug harness\<close>

text \<open>
  \<^verbatim>\<open>CPU::break_time\<close> is a const member that counts down the mutable step counter:
  it returns its verdict together with the state it leaves.
\<close>

definition break_time :: "machine \<Rightarrow> bool \<times> machine" where
  "break_time s =
     (if m_break s then (True, s)
      else if m_break_steps_cnt s \<noteq> 0 then
        (let s1 = s\<lparr>m_break_steps := m_break_steps s - 1\<rparr>
         in if m_break_steps s1 \<le> 0
            then (True, s1\<lparr>m_break_steps := m_break_steps_cnt s1\<rparr>)
            else (False, s1))
      else (False, s))"

definition break_on_steps :: "machine \<Rightarrow> int \<Rightarrow> machine option" where
  "break_on_steps s steps =
     (if steps \<ge> 0 then Some (s\<lparr>m_break_steps_cnt := steps, m_break_steps := steps\<rparr>)
      else None)"

text \<open>
  \<^verbatim>\<open>execute_commands\<close> on one line of input: the state it leaves and whether the
  console stays at the prompt; \<open>None\<close> when an assertion fails.
\<close>

fun execute_commands :: "env \<Rightarrow> machine \<Rightarrow> command \<Rightarrow> (machine \<times> bool) option" where
  "execute_commands e s Cmd_none = Some (s, False)"
| "execute_commands e s Cmd_continue =
     map_option (\<lambda>s'. (s', False)) (break_on_steps s 0)"
| "execute_commands e s (Cmd_step steps) =
     map_option (\<lambda>s'. (s', False))
       (break_on_steps (s\<lparr>verbose_instructions := True\<rparr>) steps)"
| "execute_commands e s (Cmd_break addr) = Some (default_pausepoint e addr s, True)"
| "execute_commands e s Cmd_clear = Some (s\<lparr>m_breakpoints := Mapping.empty\<rparr>, True)"
| "execute_commands e s Cmd_verbose =
     Some (s\<lparr>verbose_instructions := \<not> verbose_instructions s\<rparr>, True)"
| "execute_commands e s Cmd_run =
     map_option (\<lambda>s'. (s', False))
       (break_on_steps (s\<lparr>verbose_instructions := False\<rparr>) 0)"
| "execute_commands e s Cmd_quit = Some (stop s, False)"
| "execute_commands e s Cmd_reset = Some (break_now (machine_reset e s), False)"
| "execute_commands e s (Cmd_write addr v) = Some (write8 s addr v, True)"
| "execute_commands e s Cmd_vblank = Some (render_and_vblank e s, True)"
| "execute_commands e s Cmd_debug = Some (debugint_callback e s, True)"
| "execute_commands e s Cmd_info = Some (s, True)"

text \<open>
  The loop \<^verbatim>\<open>while (execute_commands(cpu));\<close> of \<^verbatim>\<open>print_and_pause\<close> over the lines
  of standard input. At the end of input \<^verbatim>\<open>getchar\<close> yields EOF, the line is empty and
  the console resumes.
\<close>

fun console_loop :: "env \<Rightarrow> machine \<Rightarrow> command list \<Rightarrow> (machine \<times> command list) option" where
  "console_loop e s [] = Some (s, [])"
| "console_loop e s (c # cs) =
     (case execute_commands e s c of
        None \<Rightarrow> None
      | Some (s', again) \<Rightarrow> if again then console_loop e s' cs else Some (s', cs))"

definition print_and_pause :: "env \<Rightarrow> machine \<Rightarrow> 8 word \<Rightarrow> machine option" where
  "print_and_pause e s opcode =
     (case console_loop e s (console_input s) of
        None \<Rightarrow> None
      | Some (s', rest) \<Rightarrow> Some (s'\<lparr>console_input := rest\<rparr>))"

subsection \<open>Fetch and execute\<close>

text \<open>
  The first statement of \<^verbatim>\<open>CPU::execute\<close>: the break of the stepper, or else the
  breakpoint at PC. The boolean says that the user has quit during the break, on which
  \<^verbatim>\<open>execute\<close> returns 0 at once. What \<^verbatim>\<open>execute\<close> and the console print is not
  part of the state: of the two verbose branches only the update of \<open>m_last_flags\<close>
  remains.
\<close>

definition execute_break_checks :: "env \<Rightarrow> machine \<Rightarrow> 8 word \<Rightarrow> (machine \<times> bool) option" where
  "execute_break_checks e s opcode =
     (case break_time s of
        (True, s0) \<Rightarrow>
          (case print_and_pause e (s0\<lparr>m_break := False\<rparr>) opcode of
             None \<Rightarrow> None
           | Some s1 \<Rightarrow> Some (s1, \<not> is_running s1))
      | (False, s0) \<Rightarrow>
          if \<not> Mapping.is_empty (m_breakpoints s0) then
            (case Mapping.lookup (m_breakpoints s0) (pc s0) of
               None \<Rightarrow> Some (s0, False)
             | Some bp \<Rightarrow>
                 (case callback bp of
                    None \<Rightarrow> None
                  | Some cb \<Rightarrow> map_option (\<lambda>s1. (s1, False)) (callbacks e cb s0 opcode)))
          else Some (s0, False))"

definition execute :: "env \<Rightarrow> machine \<Rightarrow> 8 word \<Rightarrow> (machine \<times> 32 word) option" where
  "execute e s opcode =
     (case execute_break_checks e s opcode of
        None \<Rightarrow> None
      | Some (s1, True) \<Rightarrow> Some (s1, 0)
      | Some (s1, False) \<Rightarrow>
          (let instr = decode opcode;
               s2 = s1\<lparr>pc := pc s1 + 1\<rparr>
           in case handler e instr s2 opcode of
                None \<Rightarrow> None
              | Some (s3, ret) \<Rightarrow>
                  Some (if verbose_instructions s3 \<and> m_last_flags s3 \<noteq> flags s3
                        then s3\<lparr>m_last_flags := flags s3\<rparr> else s3, ret)))"

definition simulate :: "env \<Rightarrow> machine \<Rightarrow> machine option" where
  "simulate e s =
     (if \<not> is_halting s then
        (let s1 = s\<lparr>m_cur_opcode := readop8 s 0\<rparr>
         in case execute e s1 (m_cur_opcode s1) of
              None \<Rightarrow> None
            | Some (s2, time) \<Rightarrow> map_option handle_interrupts (incr_cycles s2 (sint time)))
      else map_option handle_interrupts (incr_cycles s 4))"

text \<open>
  Steps 1 to 3 of \<^verbatim>\<open>CPU::simulate\<close>, up to its call of \<^verbatim>\<open>handle_interrupts\<close>: the state
  of the step at its interrupt-handling point.
\<close>

definition before_interrupts :: "env \<Rightarrow> machine \<Rightarrow> machine option" where
  "before_interrupts e s =
     (if \<not> is_halting s then
        (let s1 = s\<lparr>m_cur_opcode := readop8 s 0\<rparr>
         in case execute e s1 (m_cur_opcode s1) of
              None \<Rightarrow> None
            | Some (s2, time) \<Rightarrow> incr_cycles s2 (sint time))
      else incr_cycles s 4)"

subsection \<open>Instruction handlers used by the properties\<close>

text \<open>
  Modelled from the spec: the handlers of \<^verbatim>\<open>instructions.cpp\<close> are not among the
  sources. Section 4.3 gives the unused opcodes as a no-op of 4 cycles; scenario 1 of
  section 8 gives NOP as 4 cycles with nothing changed but PC; section 4.4 gives EI and
  DI as the entry points \<open>enable_interrupts\<close> and \<open>disable_interrupts\<close>, and
  scenario 2 gives 0xFB as EI (so 0xF3, the other opcode of the group, is DI).
\<close>

definition handler_NOP :: "machine \<Rightarrow> 8 word \<Rightarrow> (machine \<times> 32 word) option" where
  "handler_NOP s opcode = Some (s, 4)"

definition handler_UNUSED_OPS :: "machine \<Rightarrow> 8 word \<Rightarrow> (machine \<times> 32 word) option" where
  "handler_UNUSED_OPS s opcode = Some (s, 4)"

definition handler_DI_EI :: "machine \<Rightarrow> 8 word \<Rightarrow> (machine \<times> 32 word) option" where
  "handler_DI_EI s opcode =
     Some (if opcode = 0xFB then enable_interrupts s else disable_interrupts s, 4)"

section \<open>The claims' own vocabulary\<close>

text \<open>
  The fixed priority order of the interrupt sources, and the pending source of highest
  priority under a mask: the first source in that order whose bit is set.
\<close>

definition priority_order :: "interrupt_t list" where
  "priority_order = [vblank, lcd_stat, timer, serial, joypad]"

definition highest_pending :: "8 word \<Rightarrow> interrupt_t option" where
  "highest_pending imask = find (\<lambda>i. imask AND intr_mask i \<noteq> 0) priority_order"

section \<open>Concrete machines\<close>

text \<open>
  An environment with the three handlers above (every other group aborts), one
  breakpoint callback that does nothing, and a machine reset that resets the CPU.
\<close>

definition test_env :: env where
  "test_env =
     \<lparr>handler = (\<lambda>i. if i = instr_NOP then handler_NOP
                      else if i = instr_UNUSED_OPS then handler_UNUSED_OPS
                      else if i = instr_DI_EI then handler_DI_EI
                      else (\<lambda>s opcode. None)),
      callbacks = (\<lambda>n s opcode. Some s),
      machine_reset = reset,
      render_and_vblank = (\<lambda>s. s),
      debugint_callback = (\<lambda>s. s),
      default_pausepoint = (\<lambda>addr s. s)\<rparr>"

text \<open>A machine just after power-on, with a cartridge of NOPs and PC at 0x0100.\<close>

definition power_on :: machine where
  "power_on =
     \<lparr>af = 0x01b0, bc = 0x0013, de = 0x00d8, hl = 0x014d, sp = 0xfffe, pc = 0x0100,
      m_cycles_total = 0, m_cur_opcode = 0, m_running = True, m_asleep = False,
      m_haltbug = 0, m_intr_master_enable = False, m_intr_pending = 0,
      m_break = False, m_break_steps_cnt = 0, m_break_steps = 0,
      m_breakpoints = Mapping.empty, m_last_flags = 0, verbose_instructions = False,
      memory = (\<lambda>a. 0), reg_IF = 0, reg_IE = 0, console_input = []\<rparr>"

text \<open>
  The environment above with a breakpoint callback that records the opcode it is given
  in DE, sets the step period to 3 and turns the verbose flag on.
\<close>

definition trace_env :: env where
  "trace_env = test_env\<lparr>callbacks :=
     (\<lambda>n s opcode. Some (s\<lparr>de := ucast opcode, m_break_steps_cnt := 3, m_break_steps := 3,
                              verbose_instructions := True\<rparr>))\<rparr>"

text \<open>
  A running machine with IME set and VBlank pending and enabled whose DI toggle
  completes in this step; and one at PC 0x1234 with LCD STAT and Timer pending and
  enabled, IME set, and a DI toggle that has just been requested.
\<close>

definition st_di_pending :: machine where
  "st_di_pending = power_on\<lparr>m_intr_master_enable := True, m_intr_pending := - 1,
      reg_IF := 0x01, reg_IE := 0x01\<rparr>"

definition st_lcd_timer_run :: machine where
  "st_lcd_timer_run = power_on\<lparr>pc := 0x1234, m_intr_master_enable := True,
      m_intr_pending := - 2, reg_IF := 0x06, reg_IE := 0xFF\<rparr>"

text \<open>
  A running machine about to fetch 0xDB at a breakpoint that has a callback, a
  \<open>break_on_steps\<close> of 5 and a clear \<open>verbose_instr\<close>.
\<close>

definition st_breakpoint_traced :: machine where
  "st_breakpoint_traced = power_on\<lparr>memory := (\<lambda>a. 0)(0x0100 := 0xDB),
      m_breakpoints :=
        Mapping.update 0x0100 \<lparr>callback = Some 2, break_on_steps_bp = 5, verbose_instr = False\<rparr>
          Mapping.empty\<rparr>"

text \<open>
  A machine that executes instructions undisturbed: awake, no break due, no
  breakpoints, and IME clear or no enabled interrupt pending.
\<close>

definition undisturbed :: "machine \<Rightarrow> bool" where
  "undisturbed s \<longleftrightarrow> \<not> is_halting s \<and> \<not> m_break s \<and> m_break_steps_cnt s = 0 \<and>
     Mapping.is_empty (m_breakpoints s) \<and> \<not> (ime s \<and> interrupt_mask s \<noteq> 0)"

text \<open>
  A running machine with IME clear and VBlank pending and enabled about to execute EI,
  DI and a NOP.
\<close>

definition st_ei_di_masked :: machine where
  "st_ei_di_masked = power_on\<lparr>reg_IF := 0x01, reg_IE := 0x01,
      memory := (\<lambda>a. 0)(0x0100 := 0xFB, 0x0101 := 0xF3)\<rparr>"


text \<open>
  A halted machine with VBlank pending and enabled while IME is clear, and one with
  Joypad pending and enabled while IME is set.
\<close>

definition st_halt_no_ime :: machine where
  "st_halt_no_ime = power_on\<lparr>m_asleep := True, m_haltbug := 2, reg_IF := 0x01, reg_IE := 0x01\<rparr>"

definition st_halt_ime :: machine where
  "st_halt_ime = power_on\<lparr>m_asleep := True, m_haltbug := 2, m_intr_master_enable := True,
      reg_IF := 0x10, reg_IE := 0x10\<rparr>"

text \<open>
  A running machine with the one-shot break armed, whose user types \<^verbatim>\<open>v\<close> and then
  \<^verbatim>\<open>q\<close> at the console while an EI toggle is one step from completion and LCD STAT
  and Timer are pending; and the state in which the console leaves it.
\<close>

definition st_quit :: machine where
  "st_quit = power_on\<lparr>m_break := True, console_input := [Cmd_verbose, Cmd_quit],
      m_intr_pending := 1, reg_IF := 0x06, reg_IE := 0xFF\<rparr>"

definition st_quit_paused :: machine where
  "st_quit_paused = power_on\<lparr>m_running := False, verbose_instructions := True,
      m_intr_pending := 1, reg_IF := 0x06, reg_IE := 0xFF\<rparr>"

text \<open>A halted machine in the middle of a run, as a debug-console reset may find it.\<close>

definition st_after_run :: machine where
  "st_after_run = power_on\<lparr>pc := 0x4321, m_cycles_total := 1000, m_cur_opcode := 0x76,
      m_asleep := True, m_haltbug := 2, m_intr_master_enable := True, m_intr_pending := 2\<rparr>"

text \<open>
  A running machine about to fetch the unused opcode 0xDB, with IME set and VBlank
  flagged but not enabled.
\<close>

definition st_unused :: machine where
  "st_unused = power_on\<lparr>m_cycles_total := 96, memory := (\<lambda>a. 0)(0x0100 := 0xDB),
     m_intr_master_enable := True, reg_IF := 0x01\<rparr>"

text \<open>A running machine one fetch after waking from HALT: the HALT-bug counter is 1.\<close>

definition st_haltbug :: machine where
  "st_haltbug = power_on\<lparr>m_haltbug := 1\<rparr>"

text \<open>
  A running machine with a breakpoint at its PC whose \<open>break_on_steps\<close> is 5 and whose
  \<open>verbose_instr\<close> is set, while the machine's step period is 0 and its verbose flag
  clear.
\<close>

definition st_breakpoint :: machine where
  "st_breakpoint = power_on\<lparr>m_breakpoints :=
      Mapping.update 0x0100 \<lparr>callback = Some 0, break_on_steps_bp = 5, verbose_instr = True\<rparr>
        Mapping.empty\<rparr>"

text \<open>A running machine with IME set about to execute EI, DI and a NOP.\<close>

definition st_ei_di :: machine where
  "st_ei_di = power_on\<lparr>m_intr_master_enable := True,
      memory := (\<lambda>a. 0)(0x0100 := 0xFB, 0x0101 := 0xF3)\<rparr>"




section \<open>Properties\<close>

subsection \<open>Auxiliary facts\<close>

lemma low5_some_bit:
  fixes y :: "8 word"
  assumes "y AND 0x1F \<noteq> 0"
  shows "(y AND 0x1F) AND 0x1 \<noteq> 0 \<or> (y AND 0x1F) AND 0x2 \<noteq> 0 \<or> (y AND 0x1F) AND 0x4 \<noteq> 0
         \<or> (y AND 0x1F) AND 0x8 \<noteq> 0 \<or> (y AND 0x1F) AND 0x10 \<noteq> 0"
proof (rule ccontr)
  assume "\<not> ?thesis"
  then have z: "(y AND 0x1F) AND 0x1 = 0" "(y AND 0x1F) AND 0x2 = 0" "(y AND 0x1F) AND 0x4 = 0"
    "(y AND 0x1F) AND 0x8 = 0" "(y AND 0x1F) AND 0x10 = 0" by simp_all
  have "(0x1F :: 8 word) = 0x1 OR 0x2 OR 0x4 OR 0x8 OR 0x10" by simp
  then have "y AND 0x1F = (y AND 0x1F) AND (0x1 OR 0x2 OR 0x4 OR 0x8 OR 0x10)"
    by (simp add: and.assoc)
  also have "\<dots> = 0"
    unfolding bit.conj_disj_distrib using z by simp
  finally show False using assms by simp
qed

lemma ime_countdown_fields [simp]:
  "reg_IF (ime_countdown s) = reg_IF s"
  "reg_IE (ime_countdown s) = reg_IE s"
  "pc (ime_countdown s) = pc s"
  "sp (ime_countdown s) = sp s"
  "memory (ime_countdown s) = memory s"
  "m_asleep (ime_countdown s) = m_asleep s"
  "m_haltbug (ime_countdown s) = m_haltbug s"
  "m_cycles_total (ime_countdown s) = m_cycles_total s"
  "m_running (ime_countdown s) = m_running s"
  "m_break (ime_countdown s) = m_break s"
  by (simp_all add: ime_countdown_def Let_def)

lemma interrupt_mask_ime_countdown [simp]:
  "interrupt_mask (ime_countdown s) = interrupt_mask s"
  by (simp add: interrupt_mask_def)

lemma interrupt_fields:
  "pc (interrupt s i) = fixed_address i"
  "sp (interrupt s i) = sp s - 2"
  "reg_IF (interrupt s i) = reg_IF s AND NOT (intr_mask i)"
  "reg_IE (interrupt s i) = reg_IE s"
  "m_asleep (interrupt s i) = m_asleep s"
  "m_intr_master_enable (interrupt s i) = m_intr_master_enable s"
  "m_intr_pending (interrupt s i) = m_intr_pending s"
  "m_haltbug (interrupt s i) = m_haltbug s"
  "m_cycles_total (interrupt s i) = m_cycles_total s"
  "m_running (interrupt s i) = m_running s"
  "m_break (interrupt s i) = m_break s"
  by (simp_all add: interrupt_def push_and_jump_def write16_def Let_def)

lemma interrupt_memory:
  assumes "sp s = q" and "pc s = p"
  shows "memory (interrupt s i) (q - 2) = ucast p"
    and "memory (interrupt s i) (q - 1) = ucast (drop_bit 8 p)"
  using assms by (simp_all add: interrupt_def push_and_jump_def write16_def Let_def)

lemma dispatch_interrupt_idle:
  "\<not> (ime s \<and> interrupt_mask s \<noteq> 0) \<Longrightarrow> dispatch_interrupt s = s"
  by (auto simp add: dispatch_interrupt_def Let_def)

lemma dispatch_interrupt_serviced:
  assumes "ime s" and "interrupt_mask s \<noteq> 0"
  shows "\<exists>intr. highest_pending (interrupt_mask s) = Some intr \<and>
           dispatch_interrupt s =
             interrupt (s\<lparr>m_asleep := False, m_intr_master_enable := False,
                          m_intr_pending := 0\<rparr>) intr"
proof -
  have "interrupt_mask s = reg_IF s AND reg_IE s AND 0x1F"
    by (simp add: interrupt_mask_def)
  then have m: "interrupt_mask s = (reg_IF s AND reg_IE s) AND 0x1F"
    by (simp add: and.assoc)
  with assms(2) have "(reg_IF s AND reg_IE s) AND 0x1F \<noteq> 0" by simp
  from low5_some_bit [OF this]
  have bits: "interrupt_mask s AND 0x1 \<noteq> 0 \<or> interrupt_mask s AND 0x2 \<noteq> 0
        \<or> interrupt_mask s AND 0x4 \<noteq> 0 \<or> interrupt_mask s AND 0x8 \<noteq> 0
        \<or> interrupt_mask s AND 0x10 \<noteq> 0"
    unfolding m .
  show ?thesis
    using assms bits
    by (auto simp add: dispatch_interrupt_def highest_pending_def priority_order_def Let_def
          vblank_def lcd_stat_def timer_def serial_def joypad_def)
qed

lemma highest_pending_vector:
  "highest_pending imask = Some intr \<Longrightarrow>
     (intr_mask intr, fixed_address intr) \<in> {(0x01, 0x40), (0x02, 0x48), (0x04, 0x50), (0x08, 0x58), (0x10, 0x60)}
     \<and> imask AND intr_mask intr \<noteq> 0"
  by (auto simp add: highest_pending_def priority_order_def
          vblank_def lcd_stat_def timer_def serial_def joypad_def split: if_splits)

lemma haltbug_countdown_fields [simp]:
  "reg_IF (haltbug_countdown s) = reg_IF s"
  "reg_IE (haltbug_countdown s) = reg_IE s"
  "pc (haltbug_countdown s) = pc s"
  "sp (haltbug_countdown s) = sp s"
  "memory (haltbug_countdown s) = memory s"
  "m_asleep (haltbug_countdown s) = m_asleep s"
  "m_intr_master_enable (haltbug_countdown s) = m_intr_master_enable s"
  "m_intr_pending (haltbug_countdown s) = m_intr_pending s"
  "m_cycles_total (haltbug_countdown s) = m_cycles_total s"
  "m_running (haltbug_countdown s) = m_running s"
  "m_break (haltbug_countdown s) = m_break s"
  by (simp_all add: haltbug_countdown_def)


lemma ime_countdown_cycles:
  "ime_countdown (s\<lparr>m_cycles_total := c\<rparr>) = (ime_countdown s)\<lparr>m_cycles_total := c\<rparr>"
  by (simp add: ime_countdown_def Let_def)

lemma simulate_halted:
  "is_halting s \<Longrightarrow>
     simulate e s = Some (handle_interrupts (s\<lparr>m_cycles_total := m_cycles_total s + 4\<rparr>))"
  by (simp add: simulate_def incr_cycles_def)

lemma simulate_running:
  "\<not> is_halting s \<Longrightarrow>
     simulate e s =
       (case execute e (s\<lparr>m_cur_opcode := readop8 s 0\<rparr>) (readop8 s 0) of
          None \<Rightarrow> None
        | Some (s2, time) \<Rightarrow> map_option handle_interrupts (incr_cycles s2 (sint time)))"
  by (simp add: simulate_def Let_def)

lemma handle_interrupts_serviced:
  assumes "ime (ime_countdown s)" and "interrupt_mask s \<noteq> 0"
  shows "\<exists>intr. highest_pending (interrupt_mask s) = Some intr \<and>
           reg_IF (handle_interrupts s) = reg_IF s AND NOT (intr_mask intr) \<and>
           \<not> ime (handle_interrupts s) \<and> \<not> m_asleep (handle_interrupts s) \<and>
           m_intr_pending (handle_interrupts s) = 0 \<and>
           pc (handle_interrupts s) = fixed_address intr \<and>
           sp (handle_interrupts s) = sp s - 2 \<and>
           memory (handle_interrupts s) (sp s - 2) = ucast (pc s) \<and>
           memory (handle_interrupts s) (sp s - 1) = ucast (drop_bit 8 (pc s)) \<and>
           m_break (handle_interrupts s) = m_break s"
proof -
  from assms have "interrupt_mask (ime_countdown s) \<noteq> 0" by simp
  from dispatch_interrupt_serviced [OF assms(1) this]
  obtain intr where hp: "highest_pending (interrupt_mask s) = Some intr"
    and d: "dispatch_interrupt (ime_countdown s) =
              interrupt ((ime_countdown s)\<lparr>m_asleep := False, m_intr_master_enable := False,
                          m_intr_pending := 0\<rparr>) intr"
    by auto
  let ?s1 = "(ime_countdown s)\<lparr>m_asleep := False, m_intr_master_enable := False,
                          m_intr_pending := 0\<rparr>"
  have "sp ?s1 = sp s" and "pc ?s1 = pc s" by simp_all
  from interrupt_memory [OF this]
  have mem: "memory (interrupt ?s1 intr) (sp s - 2) = ucast (pc s)"
    "memory (interrupt ?s1 intr) (sp s - 1) = ucast (drop_bit 8 (pc s))" .
  show ?thesis
    using hp mem by (simp add: handle_interrupts_def d interrupt_fields ime_def)
qed

lemma ime_countdown_keeps_ime:
  "ime s \<Longrightarrow> m_intr_pending s \<noteq> - 1 \<Longrightarrow> ime (ime_countdown s)"
  by (simp add: ime_countdown_def ime_def Let_def)

lemma ime_countdown_completes_enable:
  "m_intr_pending s = 1 \<Longrightarrow> ime (ime_countdown s)"
  by (simp add: ime_countdown_def ime_def Let_def)

lemma handle_interrupts_idle:
  assumes "\<not> (ime (ime_countdown s) \<and> interrupt_mask s \<noteq> 0)"
  shows "handle_interrupts s = haltbug_countdown (ime_countdown s)"
  using assms by (simp add: handle_interrupts_def dispatch_interrupt_idle)

lemmas cpu_defs =
  simulate_def execute_def execute_break_checks_def break_time_def print_and_pause_def
  break_on_steps_def handle_interrupts_def ime_countdown_def dispatch_interrupt_def
  haltbug_countdown_def interrupt_def interrupt_mask_def push_and_jump_def write16_def
  write8_def read8_def readop8_def incr_cycles_def is_halting_def is_running_def ime_def
  break_now_def stop_def wait_def enable_interrupts_def disable_interrupts_def flags_def
  vblank_def lcd_stat_def timer_def serial_def joypad_def decode_def
  handler_NOP_def handler_UNUSED_OPS_def handler_DI_EI_def test_env_def power_on_def
  reset_def Let_def

lemma handle_interrupts_running [simp]:
  "m_running (handle_interrupts s) = m_running s"
  by (cases "ime (ime_countdown s) \<and> interrupt_mask s \<noteq> 0")
     (auto simp add: handle_interrupts_def dispatch_interrupt_def Let_def interrupt_fields break_now_def)

lemma handle_interrupts_cycles [simp]:
  "m_cycles_total (handle_interrupts s) = m_cycles_total s"
  by (cases "ime (ime_countdown s) \<and> interrupt_mask s \<noteq> 0")
     (auto simp add: handle_interrupts_def dispatch_interrupt_def Let_def interrupt_fields break_now_def)

lemma lookup_Some_not_empty:
  "Mapping.lookup m k = Some v \<Longrightarrow> \<not> Mapping.is_empty m"
  unfolding Mapping.is_empty_def by transfer auto

lemma execute_break_checks_quiet:
  assumes "\<not> m_break s" and "m_break_steps_cnt s = 0"
    and "Mapping.lookup (m_breakpoints s) (pc s) = None"
  shows "execute_break_checks e s opcode = Some (s, False)"
  using assms by (simp add: execute_break_checks_def break_time_def)

lemma ime_countdown_cong:
  assumes "m_intr_pending x = m_intr_pending s"
    and "m_intr_master_enable x = m_intr_master_enable s"
  shows "ime (ime_countdown x) = ime (ime_countdown s)"
    and "m_intr_pending (ime_countdown x) = m_intr_pending (ime_countdown s)"
  using assms by (simp_all add: ime_countdown_def ime_def Let_def)

lemma dispatch_interrupt_haltbug [simp]:
  "m_haltbug (dispatch_interrupt s) = m_haltbug s"
  by (auto simp add: dispatch_interrupt_def Let_def interrupt_fields break_now_def)

lemma handle_interrupts_haltbug:
  "m_haltbug (handle_interrupts s) =
     (if m_asleep (handle_interrupts s) \<or> m_haltbug s = 0 then m_haltbug s
      else m_haltbug s - 1)"
  by (simp add: handle_interrupts_def haltbug_countdown_def)

lemma is_empty_lookup_None:
  "Mapping.is_empty m \<Longrightarrow> Mapping.lookup m k = None"
  unfolding Mapping.is_empty_def by transfer auto

lemma simulate_split:
  "simulate e s = map_option handle_interrupts (before_interrupts e s)"
  by (simp add: simulate_def before_interrupts_def Let_def split: option.split)

lemma before_interrupts_halted:
  "is_halting s \<Longrightarrow> before_interrupts e s = Some (s\<lparr>m_cycles_total := m_cycles_total s + 4\<rparr>)"
  by (simp add: before_interrupts_def incr_cycles_def)

lemma ime_after_countdown:
  "ime (ime_countdown s) \<longleftrightarrow> m_intr_pending s = 1 \<or> (ime s \<and> m_intr_pending s \<noteq> - 1)"
  by (auto simp add: ime_countdown_def ime_def Let_def)

lemma step_DI_EI:
  assumes "undisturbed s"
    and "memory s (pc s) = op" and "op = 0xFB \<or> op = 0xF3"
    and "handler e instr_DI_EI = handler_DI_EI"
  shows "\<exists>s'. simulate e s = Some s' \<and> undisturbed s' \<and> memory s' = memory s \<and>
           pc s' = pc s + 1 \<and> ime s' = ime s \<and>
           m_intr_pending s' = (if op = 0xFB then 1 else - 1)"
proof -
  from assms(1) have run: "\<not> is_halting s" and q: "\<not> m_break s" "m_break_steps_cnt s = 0"
    and emp: "Mapping.is_empty (m_breakpoints s)"
    and im: "\<not> (ime s \<and> interrupt_mask s \<noteq> 0)"
    by (simp_all add: undisturbed_def)
  have rd: "readop8 s 0 = op" using assms(2) by (simp add: readop8_def read8_def)
  have d: "decode op = instr_DI_EI" using assms(3) by (auto simp add: decode_def)
  let ?s1 = "s\<lparr>m_cur_opcode := op\<rparr>"
  let ?s2 = "?s1\<lparr>pc := pc s + 1\<rparr>"
  let ?h = "if op = 0xFB then enable_interrupts ?s2 else disable_interrupts ?s2"
  let ?s3 = "if verbose_instructions ?h \<and> m_last_flags ?h \<noteq> flags ?h
             then ?h\<lparr>m_last_flags := flags ?h\<rparr> else ?h"
  let ?s4 = "?s3\<lparr>m_cycles_total := m_cycles_total ?s3 + 4\<rparr>"
  have bc: "execute_break_checks e ?s1 op = Some (?s1, False)"
    using q is_empty_lookup_None [OF emp] by (intro execute_break_checks_quiet) simp_all
  have ex: "execute e ?s1 op = Some (?s3, 4)"
    by (simp add: execute_def bc d assms(4) handler_DI_EI_def Let_def)
  have sim: "simulate e s = Some (handle_interrupts ?s4)"
    using run ex by (simp add: simulate_running rd incr_cycles_def)
  have p4: "m_intr_pending ?s4 = (if op = 0xFB then 2 else - 2)"
    and i4: "ime ?s4 = ime s" and m4: "interrupt_mask ?s4 = interrupt_mask s"
    by (simp_all add: ime_def interrupt_mask_def enable_interrupts_def disable_interrupts_def)
  have "ime (ime_countdown ?s4) = ime s"
    unfolding ime_after_countdown using p4 i4 by (simp split: if_splits)
  with im m4 have "\<not> (ime (ime_countdown ?s4) \<and> interrupt_mask ?s4 \<noteq> 0)"
    by simp
  then have hi: "handle_interrupts ?s4 = haltbug_countdown (ime_countdown ?s4)"
    by (rule handle_interrupts_idle)
  have "undisturbed (handle_interrupts ?s4) \<and> memory (handle_interrupts ?s4) = memory s \<and>
           pc (handle_interrupts ?s4) = pc s + 1 \<and> ime (handle_interrupts ?s4) = ime s \<and>
           m_intr_pending (handle_interrupts ?s4) = (if op = 0xFB then 1 else - 1)"
    unfolding hi using run q emp im
    by (simp add: undisturbed_def is_halting_def ime_def interrupt_mask_def ime_countdown_def
          haltbug_countdown_def enable_interrupts_def disable_interrupts_def Let_def)
  with sim show ?thesis by blast
qed

lemma di_pending_completes:
  assumes "m_intr_pending mid = - 1"
  shows "\<not> ime (handle_interrupts mid)"
proof -
  have "\<not> ime (ime_countdown mid)"
    using assms by (simp add: ime_after_countdown)
  then have "handle_interrupts mid = haltbug_countdown (ime_countdown mid)"
    by (intro handle_interrupts_idle) simp
  with \<open>\<not> ime (ime_countdown mid)\<close> show ?thesis by (simp add: ime_def)
qed

lemma interrupt_debug_fields:
  "m_break_steps_cnt (interrupt s i) = m_break_steps_cnt s"
  "m_break_steps (interrupt s i) = m_break_steps s"
  "verbose_instructions (interrupt s i) = verbose_instructions s"
  by (simp_all add: interrupt_def push_and_jump_def write16_def Let_def)

lemma ime_countdown_debug_fields:
  "m_break_steps_cnt (ime_countdown s) = m_break_steps_cnt s"
  "m_break_steps (ime_countdown s) = m_break_steps s"
  "verbose_instructions (ime_countdown s) = verbose_instructions s"
  by (simp_all add: ime_countdown_def Let_def)

lemma dispatch_interrupt_debug_fields:
  "m_break_steps_cnt (dispatch_interrupt s) = m_break_steps_cnt s"
  "m_break_steps (dispatch_interrupt s) = m_break_steps s"
  "verbose_instructions (dispatch_interrupt s) = verbose_instructions s"
  by (auto simp add: dispatch_interrupt_def Let_def interrupt_debug_fields break_now_def)

lemma haltbug_countdown_debug_fields:
  "m_break_steps_cnt (haltbug_countdown s) = m_break_steps_cnt s"
  "m_break_steps (haltbug_countdown s) = m_break_steps s"
  "verbose_instructions (haltbug_countdown s) = verbose_instructions s"
  by (simp_all add: haltbug_countdown_def)

lemma handle_interrupts_debug_fields:
  "m_break_steps_cnt (handle_interrupts s) = m_break_steps_cnt s"
  "m_break_steps (handle_interrupts s) = m_break_steps s"
  "verbose_instructions (handle_interrupts s) = verbose_instructions s"
  by (simp_all add: handle_interrupts_def haltbug_countdown_debug_fields
        dispatch_interrupt_debug_fields ime_countdown_debug_fields)


subsection \<open>Interrupt service\<close>

text \<open>
  Against claim C1 as stated: a step that executes a NOP reaches its interrupt-handling
  point with IME true and VBlank pending and enabled, and with a DI toggle one step
  from completion. The countdown completes first and clears IME: no interrupt is
  serviced, PC stays behind the NOP, SP and IF are unchanged.
\<close>

theorem di_completing_blocks_interrupt:
  "before_interrupts test_env st_di_pending
     = Some (st_di_pending\<lparr>pc := 0x0101, m_cycles_total := 4\<rparr>) \<and>
   ime (st_di_pending\<lparr>pc := 0x0101, m_cycles_total := 4\<rparr>) \<and>
   interrupt_mask (st_di_pending\<lparr>pc := 0x0101, m_cycles_total := 4\<rparr>) = 0x01 \<and>
   map_option pc (simulate test_env st_di_pending) = Some 0x0101 \<and>
   map_option sp (simulate test_env st_di_pending) = Some 0xFFFE \<and>
   map_option reg_IF (simulate test_env st_di_pending) = Some 0x01 \<and>
   map_option ime (simulate test_env st_di_pending) = Some False"
  by (simp add: st_di_pending_def before_interrupts_def cpu_defs)

text \<open>
  Claim C1, amended. For every simulate step that reaches its interrupt-handling point
  with IME true, no DI toggle completing in this step (\<open>ime_pending\<close> is not -1) and
  the mask \<open>IF & IE & 0x1F\<close> not zero, the step completes and services exactly one
  interrupt, the pending one of highest priority in the order VBlank, LCD STAT, Timer,
  Serial, Joypad: only its IF bit is cleared; after the step IME is false, the CPU is
  awake, no toggle is pending, PC is the vector of that source (0x40, 0x48, 0x50, 0x58,
  0x60), SP is two lower, and the PC from before the interrupt lies little-endian at
  the new SP. No debug break is raised.
\<close>

theorem interrupt_serviced_by_priority:
  assumes "before_interrupts e s = Some mid"
    and "ime mid" and "m_intr_pending mid \<noteq> - 1"
    and "interrupt_mask mid \<noteq> 0"
  shows "\<exists>s' intr. simulate e s = Some s' \<and>
           highest_pending (interrupt_mask mid) = Some intr \<and>
           (intr_mask intr, fixed_address intr) \<in>
             {(0x01, 0x40), (0x02, 0x48), (0x04, 0x50), (0x08, 0x58), (0x10, 0x60)} \<and>
           reg_IF s' = reg_IF mid AND NOT (intr_mask intr) \<and>
           \<not> ime s' \<and> \<not> m_asleep s' \<and> m_intr_pending s' = 0 \<and>
           pc s' = fixed_address intr \<and>
           sp s' = sp mid - 2 \<and>
           memory s' (sp s') = ucast (pc mid) \<and>
           memory s' (sp s' + 1) = ucast (drop_bit 8 (pc mid)) \<and>
           m_break s' = m_break mid"
proof -
  have sim: "simulate e s = Some (handle_interrupts mid)"
    using assms(1) by (simp add: simulate_split)
  have i: "ime (ime_countdown mid)"
    using assms(2,3) by (simp add: ime_after_countdown)
  from handle_interrupts_serviced [OF i assms(4)]
  obtain intr where h: "highest_pending (interrupt_mask mid) = Some intr"
           "reg_IF (handle_interrupts mid) = reg_IF mid AND NOT (intr_mask intr)"
           "\<not> ime (handle_interrupts mid)" "\<not> m_asleep (handle_interrupts mid)"
           "m_intr_pending (handle_interrupts mid) = 0"
           "pc (handle_interrupts mid) = fixed_address intr"
           "sp (handle_interrupts mid) = sp mid - 2"
           "memory (handle_interrupts mid) (sp mid - 2) = ucast (pc mid)"
           "memory (handle_interrupts mid) (sp mid - 1) = ucast (drop_bit 8 (pc mid))"
           "m_break (handle_interrupts mid) = m_break mid"
    by blast
  from highest_pending_vector [OF h(1)]
  have "(intr_mask intr, fixed_address intr) \<in>
             {(0x01, 0x40), (0x02, 0x48), (0x04, 0x50), (0x08, 0x58), (0x10, 0x60)}"
    by simp
  with sim h show ?thesis
    by (intro exI [of _ "handle_interrupts mid"] exI [of _ intr]) simp
qed

theorem interrupt_serviced_by_priority_witness:
  "before_interrupts test_env st_lcd_timer_run
     = Some (st_lcd_timer_run\<lparr>pc := 0x1235, m_cycles_total := 4\<rparr>) \<and>
   ime (st_lcd_timer_run\<lparr>pc := 0x1235, m_cycles_total := 4\<rparr>) \<and>
   m_intr_pending (st_lcd_timer_run\<lparr>pc := 0x1235, m_cycles_total := 4\<rparr>) \<noteq> - 1 \<and>
   interrupt_mask (st_lcd_timer_run\<lparr>pc := 0x1235, m_cycles_total := 4\<rparr>) \<noteq> 0 \<and>
   highest_pending (interrupt_mask (st_lcd_timer_run\<lparr>pc := 0x1235, m_cycles_total := 4\<rparr>))
     = Some lcd_stat \<and>
   map_option reg_IF (simulate test_env st_lcd_timer_run) = Some 0x04 \<and>
   map_option ime (simulate test_env st_lcd_timer_run) = Some False \<and>
   map_option m_asleep (simulate test_env st_lcd_timer_run) = Some False \<and>
   map_option m_intr_pending (simulate test_env st_lcd_timer_run) = Some 0 \<and>
   map_option pc (simulate test_env st_lcd_timer_run) = Some 0x48 \<and>
   map_option sp (simulate test_env st_lcd_timer_run) = Some 0xFFFC \<and>
   map_option (\<lambda>s. memory s 0xFFFC) (simulate test_env st_lcd_timer_run) = Some 0x35 \<and>
   map_option (\<lambda>s. memory s 0xFFFD) (simulate test_env st_lcd_timer_run) = Some 0x12"
proof -
  let ?mid = "st_lcd_timer_run\<lparr>pc := 0x1235, m_cycles_total := 4\<rparr>"
  have h1: "before_interrupts test_env st_lcd_timer_run = Some ?mid"
    by (simp add: st_lcd_timer_run_def before_interrupts_def cpu_defs)
  have h2: "ime ?mid" "m_intr_pending ?mid \<noteq> - 1"
    by (simp_all add: st_lcd_timer_run_def cpu_defs)
  have m: "interrupt_mask ?mid = 0x06"
    by (simp add: st_lcd_timer_run_def cpu_defs)
  then have h3: "interrupt_mask ?mid \<noteq> 0" by simp
  have hp: "highest_pending (interrupt_mask ?mid) = Some lcd_stat"
    by (simp add: m highest_pending_def priority_order_def
          vblank_def lcd_stat_def timer_def serial_def joypad_def)
  have f: "reg_IF ?mid = 0x06" "sp ?mid = 0xFFFE" "pc ?mid = 0x1235"
    by (simp_all add: st_lcd_timer_run_def cpu_defs)
  from interrupt_serviced_by_priority [OF h1 h2 h3] hp h1 h2 h3
  show ?thesis
    by (auto simp add: f lcd_stat_def)
qed

subsection \<open>Waking from HALT\<close>

text \<open>
  Against claim C7 as stated: a halted machine with VBlank pending and enabled but IME
  clear is still asleep after the step.
\<close>

theorem halted_step_keeps_asleep_without_ime:
  "is_halting st_halt_no_ime \<and> interrupt_mask st_halt_no_ime \<noteq> 0 \<and>
   map_option m_asleep (simulate test_env st_halt_no_ime) = Some True"
  by (simp add: st_halt_no_ime_def cpu_defs)

text \<open>
  Claim C7, amended. Whenever asleep is true and an enabled interrupt is pending
  (\<open>IF & IE & 0x1F\<close> not zero), the next simulate step completes, and it clears asleep
  exactly when IME is set at the dispatch check, after the countdown of the delayed
  toggle; with IME clear there the CPU stays asleep.
\<close>

theorem halted_step_wakes_iff_ime:
  assumes "is_halting s" and "interrupt_mask s \<noteq> 0"
  shows "\<exists>s'. simulate e s = Some s' \<and> (m_asleep s' \<longleftrightarrow> \<not> ime (ime_countdown s))"
proof -
  let ?s1 = "s\<lparr>m_cycles_total := m_cycles_total s + 4\<rparr>"
  have sim: "simulate e s = Some (handle_interrupts ?s1)"
    using assms(1) by (rule simulate_halted)
  have m: "interrupt_mask ?s1 = interrupt_mask s"
    by (simp add: interrupt_mask_def)
  have i: "ime (ime_countdown ?s1) = ime (ime_countdown s)"
    by (simp add: ime_countdown_cycles ime_def)
  have "m_asleep (handle_interrupts ?s1) \<longleftrightarrow> \<not> ime (ime_countdown s)"
  proof (cases "ime (ime_countdown s)")
    case True
    with i have "ime (ime_countdown ?s1)" by simp
    moreover from assms(2) m have "interrupt_mask ?s1 \<noteq> 0" by simp
    ultimately have "\<not> m_asleep (handle_interrupts ?s1)"
      using handle_interrupts_serviced [of ?s1] by blast
    with True show ?thesis by simp
  next
    case False
    with i have "\<not> (ime (ime_countdown ?s1) \<and> interrupt_mask ?s1 \<noteq> 0)" by simp
    from handle_interrupts_idle [OF this] assms(1) False
    show ?thesis by (simp add: is_halting_def)
  qed
  with sim show ?thesis by blast
qed

theorem halted_step_wakes_iff_ime_witness:
  "is_halting st_halt_ime \<and> interrupt_mask st_halt_ime \<noteq> 0 \<and> ime (ime_countdown st_halt_ime) \<and>
   map_option m_asleep (simulate test_env st_halt_ime) = Some False"
proof -
  have h1: "is_halting st_halt_ime" by (simp add: st_halt_ime_def cpu_defs)
  have h2: "interrupt_mask st_halt_ime \<noteq> 0" by (simp add: st_halt_ime_def cpu_defs)
  have h3: "ime (ime_countdown st_halt_ime)" by (simp add: st_halt_ime_def cpu_defs)
  from halted_step_wakes_iff_ime [OF h1 h2, of test_env] h1 h2 h3
  show ?thesis by auto
qed

subsection \<open>Quitting from the debug console\<close>

text \<open>
  Claim C10. If the break of a simulate step opens the console and the console leaves
  \<open>running\<close> false, \<^verbatim>\<open>execute\<close> returns 0 and the same simulate call still runs
  \<^verbatim>\<open>handle_interrupts\<close> on the state the console left: nothing is added to the cycle
  counter, \<open>running\<close> stays false, and either an interrupt is serviced (IME set at the
  dispatch check and a non-zero mask), which changes IF, PC, SP, IME, asleep and the
  pending toggle, or the delayed toggle moves one step towards zero.
\<close>

theorem quit_step_still_handles_interrupts:
  assumes "\<not> is_halting s"
    and "break_time (s\<lparr>m_cur_opcode := readop8 s 0\<rparr>) = (True, s0)"
    and "print_and_pause e (s0\<lparr>m_break := False\<rparr>) (readop8 s 0) = Some s1"
    and "\<not> is_running s1"
  shows "simulate e s = Some (handle_interrupts s1) \<and>
         \<not> is_running (handle_interrupts s1) \<and>
         m_cycles_total (handle_interrupts s1) = m_cycles_total s1 \<and>
         (ime (ime_countdown s1) \<and> interrupt_mask s1 \<noteq> 0 \<longrightarrow>
            (\<exists>intr. highest_pending (interrupt_mask s1) = Some intr \<and>
               reg_IF (handle_interrupts s1) = reg_IF s1 AND NOT (intr_mask intr) \<and>
               pc (handle_interrupts s1) = fixed_address intr \<and>
               sp (handle_interrupts s1) = sp s1 - 2 \<and>
               \<not> ime (handle_interrupts s1) \<and> \<not> m_asleep (handle_interrupts s1) \<and>
               m_intr_pending (handle_interrupts s1) = 0)) \<and>
         (\<not> (ime (ime_countdown s1) \<and> interrupt_mask s1 \<noteq> 0) \<longrightarrow>
            m_intr_pending (handle_interrupts s1) =
              (if m_intr_pending s1 > 0 then m_intr_pending s1 - 1
               else if m_intr_pending s1 < 0 then m_intr_pending s1 + 1 else 0) \<and>
            pc (handle_interrupts s1) = pc s1)"
proof -
  have ex: "execute e (s\<lparr>m_cur_opcode := readop8 s 0\<rparr>) (readop8 s 0) = Some (s1, 0)"
    using assms(2,3,4) by (simp add: execute_def execute_break_checks_def)
  have sim: "simulate e s = Some (handle_interrupts s1)"
    using assms(1) ex by (simp add: simulate_running incr_cycles_def)
  have run: "\<not> is_running (handle_interrupts s1)"
    using assms(4) by (simp add: is_running_def)
  have serv: "ime (ime_countdown s1) \<and> interrupt_mask s1 \<noteq> 0 \<longrightarrow>
            (\<exists>intr. highest_pending (interrupt_mask s1) = Some intr \<and>
               reg_IF (handle_interrupts s1) = reg_IF s1 AND NOT (intr_mask intr) \<and>
               pc (handle_interrupts s1) = fixed_address intr \<and>
               sp (handle_interrupts s1) = sp s1 - 2 \<and>
               \<not> ime (handle_interrupts s1) \<and> \<not> m_asleep (handle_interrupts s1) \<and>
               m_intr_pending (handle_interrupts s1) = 0)"
    using handle_interrupts_serviced [of s1] by blast
  have idle: "\<not> (ime (ime_countdown s1) \<and> interrupt_mask s1 \<noteq> 0) \<longrightarrow>
            m_intr_pending (handle_interrupts s1) =
              (if m_intr_pending s1 > 0 then m_intr_pending s1 - 1
               else if m_intr_pending s1 < 0 then m_intr_pending s1 + 1 else 0) \<and>
            pc (handle_interrupts s1) = pc s1"
  proof
    assume "\<not> (ime (ime_countdown s1) \<and> interrupt_mask s1 \<noteq> 0)"
    from handle_interrupts_idle [OF this]
    show "m_intr_pending (handle_interrupts s1) =
              (if m_intr_pending s1 > 0 then m_intr_pending s1 - 1
               else if m_intr_pending s1 < 0 then m_intr_pending s1 + 1 else 0) \<and>
            pc (handle_interrupts s1) = pc s1"
      by (simp add: ime_countdown_def Let_def)
  qed
  have cyc: "m_cycles_total (handle_interrupts s1) = m_cycles_total s1" by simp
  show ?thesis
    by (intro conjI) (rule sim, rule run, rule cyc, rule serv, rule idle)
qed

theorem quit_step_still_handles_interrupts_witness:
  "\<not> is_halting st_quit \<and>
   break_time (st_quit\<lparr>m_cur_opcode := readop8 st_quit 0\<rparr>) = (True, st_quit) \<and>
   print_and_pause test_env (st_quit\<lparr>m_break := False\<rparr>) (readop8 st_quit 0) = Some st_quit_paused \<and>
   \<not> is_running st_quit_paused \<and>
   ime (ime_countdown st_quit_paused) \<and> interrupt_mask st_quit_paused \<noteq> 0 \<and>
   map_option (\<lambda>s. (m_running s, pc s, sp s, reg_IF s, ime s, m_asleep s, m_intr_pending s, m_cycles_total s))
      (simulate test_env st_quit) = Some (False, 0x48, 0xFFFC, 0x04, False, False, 0, 0)"
proof -
  have h1: "\<not> is_halting st_quit" by (simp add: st_quit_def cpu_defs)
  have h2: "break_time (st_quit\<lparr>m_cur_opcode := readop8 st_quit 0\<rparr>) = (True, st_quit)"
    by (simp add: st_quit_def cpu_defs)
  have h3: "print_and_pause test_env (st_quit\<lparr>m_break := False\<rparr>) (readop8 st_quit 0) = Some st_quit_paused"
    by (simp add: st_quit_def st_quit_paused_def cpu_defs)
  have h4: "\<not> is_running st_quit_paused" by (simp add: st_quit_paused_def cpu_defs)
  have h5: "ime (ime_countdown st_quit_paused)" by (simp add: st_quit_paused_def cpu_defs)
  have m: "interrupt_mask st_quit_paused = 0x06" by (simp add: st_quit_paused_def cpu_defs)
  have hp: "highest_pending 0x06 = Some lcd_stat"
    by (simp add: highest_pending_def priority_order_def cpu_defs)
  have f: "reg_IF st_quit_paused = 0x06" "sp st_quit_paused = 0xFFFE" "m_cycles_total st_quit_paused = 0"
    by (simp_all add: st_quit_paused_def cpu_defs)
  from quit_step_still_handles_interrupts [OF h1 h2 h3 h4] h1 h2 h3 h4 h5 m hp f
  show ?thesis
    by (auto simp add: lcd_stat_def is_running_def)
qed

subsection \<open>Reset\<close>

text \<open>
  Against claim C6 as stated: reset of a halted machine with IME set, an EI toggle
  pending, the HALT-bug counter at 2 and HALT as the last opcode leaves all five as they
  were.
\<close>

theorem reset_leaves_power_state:
  "m_asleep (reset st_after_run) \<and> ime (reset st_after_run) \<and>
   m_intr_pending (reset st_after_run) = 2 \<and> m_haltbug (reset st_after_run) = 2 \<and>
   m_cur_opcode (reset st_after_run) = 0x76 \<and> pc (reset st_after_run) = 0x0000"
  by (simp add: st_after_run_def reset_def power_on_def ime_def)

text \<open>
  Claim C6, amended. For every prior state, \<^verbatim>\<open>reset()\<close> establishes AF=0x01B0,
  BC=0x0013, DE=0x00D8, HL=0x014D, SP=0xFFFE, PC=0x0000 and \<open>cycles_total\<close>=0, and
  leaves asleep, ime, ime_pending, halt_bug_skip, cur_opcode and running as they were.
\<close>

theorem reset_establishes_registers:
  "af (reset s) = 0x01B0 \<and> bc (reset s) = 0x0013 \<and> de (reset s) = 0x00D8 \<and>
   hl (reset s) = 0x014D \<and> sp (reset s) = 0xFFFE \<and> pc (reset s) = 0x0000 \<and>
   m_cycles_total (reset s) = 0 \<and>
   m_asleep (reset s) = m_asleep s \<and> ime (reset s) = ime s \<and>
   m_intr_pending (reset s) = m_intr_pending s \<and> m_haltbug (reset s) = m_haltbug s \<and>
   m_cur_opcode (reset s) = m_cur_opcode s \<and> m_running (reset s) = m_running s"
  by (simp add: reset_def ime_def)

subsection \<open>Decoder\<close>

text \<open>
  Claim C4 says that the decoder returns the CALL group for 0xCD, 0xC4, 0xCC, 0xD4 and
  0xDC. The decoder does so for 0xCD and 0xC4 only: the conditional calls 0xCC, 0xD4
  and 0xDC fall through to MISSING, and the mask 0xCD sends 0xDD, 0xED and 0xFD to CALL.
\<close>

theorem decode_call_family:
  "decode 0xCC = instr_MISSING \<and> decode 0xD4 = instr_MISSING \<and> decode 0xDC = instr_MISSING \<and>
   decode 0xC4 = instr_CALL \<and> decode 0xCD = instr_CALL \<and>
   decode 0xDD = instr_CALL \<and> decode 0xED = instr_CALL \<and> decode 0xFD = instr_CALL"
  by (simp add: decode_def)

text \<open>
  Against claim C5 as stated: the opcode 0xD3 decodes to MISSING, not to the unused
  group.
\<close>

theorem decode_D3_not_unused:
  "decode 0xD3 = instr_MISSING \<and> decode 0xD3 \<noteq> instr_UNUSED_OPS"
  by (simp add: decode_def)

text \<open>
  Claim C5, amended. For every opcode in {0xDB, 0xE4, 0xEB, 0xEC, 0xF4, 0xFC} the
  decoder returns the unused-opcode group; and a simulate step of a running CPU that
  fetches such an opcode, with no break due, no breakpoint at PC, the handler of the
  group being the no-op of 4 cycles, and no interrupt serviced at its end, completes with
  PC incremented by 1 and \<open>cycles_total\<close> increased by 4.
\<close>

theorem unused_opcode_step:
  assumes "op \<in> {0xDB, 0xE4, 0xEB, 0xEC, 0xF4, 0xFC}"
  shows "decode op = instr_UNUSED_OPS \<and>
         (\<forall>e s. \<not> is_halting s \<and> readop8 s 0 = op \<and>
                \<not> m_break s \<and> m_break_steps_cnt s = 0 \<and>
                Mapping.lookup (m_breakpoints s) (pc s) = None \<and>
                handler e instr_UNUSED_OPS = handler_UNUSED_OPS \<and>
                \<not> (ime (ime_countdown s) \<and> interrupt_mask s \<noteq> 0) \<longrightarrow>
                (\<exists>s'. simulate e s = Some s' \<and> pc s' = pc s + 1 \<and>
                      m_cycles_total s' = m_cycles_total s + 4))"
proof
  show d: "decode op = instr_UNUSED_OPS"
    using assms by (auto simp add: decode_def)
  show "\<forall>e s. \<not> is_halting s \<and> readop8 s 0 = op \<and>
                \<not> m_break s \<and> m_break_steps_cnt s = 0 \<and>
                Mapping.lookup (m_breakpoints s) (pc s) = None \<and>
                handler e instr_UNUSED_OPS = handler_UNUSED_OPS \<and>
                \<not> (ime (ime_countdown s) \<and> interrupt_mask s \<noteq> 0) \<longrightarrow>
                (\<exists>s'. simulate e s = Some s' \<and> pc s' = pc s + 1 \<and>
                      m_cycles_total s' = m_cycles_total s + 4)"
  proof (intro allI impI, elim conjE)
    fix e :: env and s :: machine
    assume run: "\<not> is_halting s" and op: "readop8 s 0 = op"
      and q: "\<not> m_break s" "m_break_steps_cnt s = 0"
             "Mapping.lookup (m_breakpoints s) (pc s) = None"
      and h: "handler e instr_UNUSED_OPS = handler_UNUSED_OPS"
      and idle: "\<not> (ime (ime_countdown s) \<and> interrupt_mask s \<noteq> 0)"
    let ?s1 = "s\<lparr>m_cur_opcode := op\<rparr>"
    let ?s2 = "?s1\<lparr>pc := pc s + 1\<rparr>"
    let ?s3 = "if verbose_instructions ?s2 \<and> m_last_flags ?s2 \<noteq> flags ?s2
               then ?s2\<lparr>m_last_flags := flags ?s2\<rparr> else ?s2"
    let ?s4 = "?s3\<lparr>m_cycles_total := m_cycles_total s + 4\<rparr>"
    have bc: "execute_break_checks e ?s1 op = Some (?s1, False)"
      using q by (intro execute_break_checks_quiet) simp_all
    have ex: "execute e ?s1 op = Some (?s3, 4)"
      by (simp add: execute_def bc d h handler_UNUSED_OPS_def Let_def)
    have sim: "simulate e s = Some (handle_interrupts ?s4)"
      using run ex by (simp add: simulate_running op incr_cycles_def)
    have "ime (ime_countdown ?s4) = ime (ime_countdown s)"
      by (rule ime_countdown_cong) simp_all
    moreover have "interrupt_mask ?s4 = interrupt_mask s"
      by (simp add: interrupt_mask_def)
    ultimately have "\<not> (ime (ime_countdown ?s4) \<and> interrupt_mask ?s4 \<noteq> 0)"
      using idle by simp
    from handle_interrupts_idle [OF this]
    have "pc (handle_interrupts ?s4) = pc s + 1"
      and "m_cycles_total (handle_interrupts ?s4) = m_cycles_total s + 4"
      by simp_all
    with sim show "\<exists>s'. simulate e s = Some s' \<and> pc s' = pc s + 1 \<and>
                      m_cycles_total s' = m_cycles_total s + 4"
      by blast
  qed
qed

theorem unused_opcode_step_witness:
  "(0xDB :: 8 word) \<in> {0xDB, 0xE4, 0xEB, 0xEC, 0xF4, 0xFC} \<and>
   decode 0xDB = instr_UNUSED_OPS \<and>
   \<not> is_halting st_unused \<and> readop8 st_unused 0 = 0xDB \<and>
   \<not> m_break st_unused \<and> m_break_steps_cnt st_unused = 0 \<and>
   Mapping.lookup (m_breakpoints st_unused) (pc st_unused) = None \<and>
   handler test_env instr_UNUSED_OPS = handler_UNUSED_OPS \<and>
   \<not> (ime (ime_countdown st_unused) \<and> interrupt_mask st_unused \<noteq> 0) \<and>
   map_option (\<lambda>s. (pc s, m_cycles_total s)) (simulate test_env st_unused) = Some (0x0101, 100)"
proof -
  have m: "(0xDB :: 8 word) \<in> {0xDB, 0xE4, 0xEB, 0xEC, 0xF4, 0xFC}" by simp
  have h: "\<not> is_halting st_unused" "readop8 st_unused 0 = 0xDB"
    "\<not> m_break st_unused" "m_break_steps_cnt st_unused = 0"
    "Mapping.lookup (m_breakpoints st_unused) (pc st_unused) = None"
    "handler test_env instr_UNUSED_OPS = handler_UNUSED_OPS"
    "\<not> (ime (ime_countdown st_unused) \<and> interrupt_mask st_unused \<noteq> 0)"
    by (simp_all add: st_unused_def cpu_defs)
  have f: "pc st_unused = 0x0100" "m_cycles_total st_unused = 96"
    by (simp_all add: st_unused_def cpu_defs)
  from unused_opcode_step [OF m] h have
    "\<exists>s'. simulate test_env st_unused = Some s' \<and> pc s' = pc st_unused + 1 \<and>
                      m_cycles_total s' = m_cycles_total st_unused + 4"
    by blast
  with unused_opcode_step [OF m] m h f show ?thesis by auto
qed

subsection \<open>Program counter and the HALT-bug counter\<close>

text \<open>
  Against claim C2 as stated: with the HALT-bug counter at 1, a step that executes a
  NOP at 0x0100 ends with PC at 0x0101; the increment is not suppressed.
\<close>

theorem haltbug_does_not_suppress_pc_increment:
  "\<not> is_halting st_haltbug \<and> 0 < m_haltbug st_haltbug \<and> pc st_haltbug = 0x0100 \<and>
   readop8 st_haltbug 0 = 0x00 \<and>
   map_option pc (simulate test_env st_haltbug) = Some 0x0101 \<and>
   map_option m_haltbug (simulate test_env st_haltbug) = Some 0"
  by (simp add: st_haltbug_def cpu_defs)

text \<open>
  Claim C2, amended. In every simulate step that executes an instruction (the CPU is
  awake and the user does not quit at a break), the handler of the decoded opcode runs
  on the state left by the break checks with PC advanced by exactly 1, whatever the
  value of the HALT-bug counter, which the fetch leaves alone; the counter is
  decremented by \<^verbatim>\<open>handle_interrupts\<close>, at the end of each step that leaves the CPU awake,
  until it is zero.
\<close>

theorem pc_advanced_before_handler:
  assumes "\<not> is_halting s"
    and "execute_break_checks e (s\<lparr>m_cur_opcode := readop8 s 0\<rparr>) (readop8 s 0) = Some (s1, False)"
  shows "simulate e s =
           (case handler e (decode (readop8 s 0)) (s1\<lparr>pc := pc s1 + 1\<rparr>) (readop8 s 0) of
              None \<Rightarrow> None
            | Some (s3, ret) \<Rightarrow>
                map_option handle_interrupts
                  (incr_cycles
                     (if verbose_instructions s3 \<and> m_last_flags s3 \<noteq> flags s3
                      then s3\<lparr>m_last_flags := flags s3\<rparr> else s3)
                     (sint ret))) \<and>
         m_haltbug (s1\<lparr>pc := pc s1 + 1\<rparr>) = m_haltbug s1 \<and>
         (\<forall>x. m_haltbug (handle_interrupts x) =
                (if m_asleep (handle_interrupts x) \<or> m_haltbug x = 0 then m_haltbug x
                 else m_haltbug x - 1))"
proof -
  have "simulate e s =
           (case handler e (decode (readop8 s 0)) (s1\<lparr>pc := pc s1 + 1\<rparr>) (readop8 s 0) of
              None \<Rightarrow> None
            | Some (s3, ret) \<Rightarrow>
                map_option handle_interrupts
                  (incr_cycles
                     (if verbose_instructions s3 \<and> m_last_flags s3 \<noteq> flags s3
                      then s3\<lparr>m_last_flags := flags s3\<rparr> else s3)
                     (sint ret)))"
    using assms by (simp add: simulate_running execute_def Let_def split: option.split)
  then show ?thesis
    using handle_interrupts_haltbug by simp
qed

theorem pc_advanced_before_handler_witness:
  "\<not> is_halting st_haltbug \<and>
   execute_break_checks test_env (st_haltbug\<lparr>m_cur_opcode := readop8 st_haltbug 0\<rparr>)
      (readop8 st_haltbug 0) = Some (st_haltbug, False) \<and>
   handler test_env (decode (readop8 st_haltbug 0)) (st_haltbug\<lparr>pc := 0x0101\<rparr>) (readop8 st_haltbug 0)
     = Some (st_haltbug\<lparr>pc := 0x0101\<rparr>, 4) \<and>
   simulate test_env st_haltbug
     = Some (handle_interrupts (st_haltbug\<lparr>pc := 0x0101, m_cycles_total := 4\<rparr>))"
proof -
  have h1: "\<not> is_halting st_haltbug" by (simp add: st_haltbug_def cpu_defs)
  have h2: "execute_break_checks test_env (st_haltbug\<lparr>m_cur_opcode := readop8 st_haltbug 0\<rparr>)
      (readop8 st_haltbug 0) = Some (st_haltbug, False)"
    by (simp add: st_haltbug_def cpu_defs)
  have p: "pc st_haltbug + 1 = 0x0101" by (simp add: st_haltbug_def cpu_defs)
  have h3: "handler test_env (decode (readop8 st_haltbug 0)) (st_haltbug\<lparr>pc := 0x0101\<rparr>) (readop8 st_haltbug 0)
     = Some (st_haltbug\<lparr>pc := 0x0101\<rparr>, 4)"
    by (simp add: st_haltbug_def cpu_defs)
  have v: "\<not> verbose_instructions st_haltbug" "m_cycles_total st_haltbug = 0"
    by (simp_all add: st_haltbug_def cpu_defs)
  from pc_advanced_before_handler [OF h1 h2] h1 h2 h3 show ?thesis
    by (simp add: p v incr_cycles_def)
qed

subsection \<open>Breakpoints\<close>

text \<open>
  Against claim C9 as stated: a step that begins at a breakpoint whose callback does
  nothing, with \<open>break_on_steps\<close> 5 and \<open>verbose_instr\<close> set, leaves the step period at
  0 and the verbose flag clear.
\<close>

theorem breakpoint_fields_not_adopted:
  "Mapping.lookup (m_breakpoints st_breakpoint) (pc st_breakpoint)
     = Some \<lparr>callback = Some 0, break_on_steps_bp = 5, verbose_instr = True\<rparr> \<and>
   fst (break_time st_breakpoint) = False \<and>
   map_option m_break_steps_cnt (simulate test_env st_breakpoint) = Some 0 \<and>
   map_option m_break_steps (simulate test_env st_breakpoint) = Some 0 \<and>
   map_option verbose_instructions (simulate test_env st_breakpoint) = Some False"
  by (simp add: st_breakpoint_def cpu_defs)

text \<open>
  Claim C9, amended. When a simulate step begins at a PC that has a registered
  breakpoint with a callback, and neither the periodic nor the one-shot break fires
  first, the callback is invoked with the CPU and the opcode, and the step goes on from
  the state the callback returns: the handler of the decoded opcode runs on that state
  with PC advanced by 1, then the cycles are added and the interrupts handled. The
  \<open>break_on_steps\<close> and \<open>verbose_instr\<close> fields of the breakpoint are not read: where
  the handler leaves the step period, the step counter and the verbose flag alone, they
  are after the step what the callback left.
\<close>

theorem breakpoint_callback_invoked:
  assumes "\<not> is_halting s"
    and "break_time (s\<lparr>m_cur_opcode := readop8 s 0\<rparr>) = (False, s0)"
    and "Mapping.lookup (m_breakpoints s0) (pc s0) = Some bp"
    and "callback bp = Some cb"
  shows "simulate e s =
           (case callbacks e cb s0 (readop8 s 0) of
              None \<Rightarrow> None
            | Some s1 \<Rightarrow>
                (case handler e (decode (readop8 s 0)) (s1\<lparr>pc := pc s1 + 1\<rparr>) (readop8 s 0) of
                   None \<Rightarrow> None
                 | Some (s3, ret) \<Rightarrow>
                     map_option handle_interrupts
                       (incr_cycles
                          (if verbose_instructions s3 \<and> m_last_flags s3 \<noteq> flags s3
                           then s3\<lparr>m_last_flags := flags s3\<rparr> else s3)
                          (sint ret)))) \<and>
         (\<forall>s1 s3 ret s'.
            callbacks e cb s0 (readop8 s 0) = Some s1 \<and>
            handler e (decode (readop8 s 0)) (s1\<lparr>pc := pc s1 + 1\<rparr>) (readop8 s 0) = Some (s3, ret) \<and>
            m_break_steps_cnt s3 = m_break_steps_cnt s1 \<and> m_break_steps s3 = m_break_steps s1 \<and>
            verbose_instructions s3 = verbose_instructions s1 \<and>
            simulate e s = Some s' \<longrightarrow>
            m_break_steps_cnt s' = m_break_steps_cnt s1 \<and> m_break_steps s' = m_break_steps s1 \<and>
            verbose_instructions s' = verbose_instructions s1)"
proof -
  let ?op = "readop8 s 0"
  have bc: "execute_break_checks e (s\<lparr>m_cur_opcode := ?op\<rparr>) ?op =
              map_option (\<lambda>s1. (s1, False)) (callbacks e cb s0 ?op)"
    using assms(2,3,4) lookup_Some_not_empty [OF assms(3)]
    by (simp add: execute_break_checks_def)
  have sim: "simulate e s =
           (case callbacks e cb s0 ?op of
              None \<Rightarrow> None
            | Some s1 \<Rightarrow>
                (case handler e (decode ?op) (s1\<lparr>pc := pc s1 + 1\<rparr>) ?op of
                   None \<Rightarrow> None
                 | Some (s3, ret) \<Rightarrow>
                     map_option handle_interrupts
                       (incr_cycles
                          (if verbose_instructions s3 \<and> m_last_flags s3 \<noteq> flags s3
                           then s3\<lparr>m_last_flags := flags s3\<rparr> else s3)
                          (sint ret))))"
    using assms(1) by (simp add: simulate_running execute_def bc Let_def split: option.split)
  have keep: "m_break_steps_cnt (handle_interrupts x) = m_break_steps_cnt x \<and>
              m_break_steps (handle_interrupts x) = m_break_steps x \<and>
              verbose_instructions (handle_interrupts x) = verbose_instructions x" for x
    by (simp add: handle_interrupts_debug_fields)
  have adopt: "m_break_steps_cnt s' = m_break_steps_cnt s1 \<and> m_break_steps s' = m_break_steps s1 \<and>
            verbose_instructions s' = verbose_instructions s1"
    if a: "callbacks e cb s0 ?op = Some s1 \<and>
            handler e (decode ?op) (s1\<lparr>pc := pc s1 + 1\<rparr>) ?op = Some (s3, ret) \<and>
            m_break_steps_cnt s3 = m_break_steps_cnt s1 \<and> m_break_steps s3 = m_break_steps s1 \<and>
            verbose_instructions s3 = verbose_instructions s1 \<and>
            simulate e s = Some s'" for s1 s3 ret s'
  proof -
    from a have "simulate e s = map_option handle_interrupts
                       (incr_cycles
                          (if verbose_instructions s3 \<and> m_last_flags s3 \<noteq> flags s3
                           then s3\<lparr>m_last_flags := flags s3\<rparr> else s3)
                          (sint ret))"
      by (simp add: sim)
    with a obtain x where x: "s' = handle_interrupts x"
      "m_break_steps_cnt x = m_break_steps_cnt s3" "m_break_steps x = m_break_steps s3"
      "verbose_instructions x = verbose_instructions s3"
      by (auto simp add: incr_cycles_def split: if_splits)
    with a keep [of x] show ?thesis by simp
  qed
  from sim adopt show ?thesis by blast
qed

theorem breakpoint_callback_invoked_witness:
  "\<not> is_halting st_breakpoint_traced \<and>
   break_time (st_breakpoint_traced\<lparr>m_cur_opcode := readop8 st_breakpoint_traced 0\<rparr>)
     = (False, st_breakpoint_traced\<lparr>m_cur_opcode := 0xDB\<rparr>) \<and>
   Mapping.lookup (m_breakpoints (st_breakpoint_traced\<lparr>m_cur_opcode := 0xDB\<rparr>))
       (pc (st_breakpoint_traced\<lparr>m_cur_opcode := 0xDB\<rparr>))
     = Some \<lparr>callback = Some 2, break_on_steps_bp = 5, verbose_instr = False\<rparr> \<and>
   callback \<lparr>callback = Some 2, break_on_steps_bp = 5, verbose_instr = False\<rparr> = Some 2 \<and>
   readop8 st_breakpoint_traced 0 = 0xDB \<and>
   map_option de (simulate trace_env st_breakpoint_traced) = Some 0x00DB \<and>
   map_option pc (simulate trace_env st_breakpoint_traced) = Some 0x0101 \<and>
   map_option m_break_steps_cnt (simulate trace_env st_breakpoint_traced) = Some 3 \<and>
   map_option m_break_steps (simulate trace_env st_breakpoint_traced) = Some 3 \<and>
   map_option verbose_instructions (simulate trace_env st_breakpoint_traced) = Some True"
proof -
  let ?s0 = "st_breakpoint_traced\<lparr>m_cur_opcode := 0xDB\<rparr>"
  let ?bp = "\<lparr>callback = Some 2, break_on_steps_bp = 5, verbose_instr = False\<rparr>"
  let ?mid = "st_breakpoint_traced\<lparr>m_cur_opcode := 0xDB, de := 0x00DB, m_break_steps_cnt := 3,
                 m_break_steps := 3, verbose_instructions := True, pc := 0x0101,
                 m_last_flags := 0xB0, m_cycles_total := 4\<rparr>"
  have op: "readop8 st_breakpoint_traced 0 = 0xDB"
    by (simp add: st_breakpoint_traced_def cpu_defs)
  have h1: "\<not> is_halting st_breakpoint_traced"
    by (simp add: st_breakpoint_traced_def cpu_defs)
  have h2: "break_time (st_breakpoint_traced\<lparr>m_cur_opcode := readop8 st_breakpoint_traced 0\<rparr>)
     = (False, ?s0)"
    by (simp add: st_breakpoint_traced_def cpu_defs)
  have h3: "Mapping.lookup (m_breakpoints ?s0) (pc ?s0) = Some ?bp"
    by (simp add: st_breakpoint_traced_def cpu_defs)
  have h4: "callback ?bp = Some 2" by simp
  have f: "pc st_breakpoint_traced = 0x0100" "af st_breakpoint_traced = 0x01b0"
    "m_last_flags st_breakpoint_traced = 0" "m_cycles_total st_breakpoint_traced = 0"
    by (simp_all add: st_breakpoint_traced_def power_on_def)
  have cb: "callbacks trace_env 2 s opcode =
              Some (s\<lparr>de := ucast opcode, m_break_steps_cnt := 3, m_break_steps := 3,
                      verbose_instructions := True\<rparr>)" for s opcode
    by (simp add: trace_env_def)
  have hd: "handler trace_env instr_UNUSED_OPS = handler_UNUSED_OPS"
    by (simp add: trace_env_def test_env_def)
  have d: "decode 0xDB = instr_UNUSED_OPS" by (simp add: decode_def)
  have w: "(432 :: 8 word) = 176" by simp
  from breakpoint_callback_invoked [OF h1 h2 h3 h4, of trace_env]
  have sim: "simulate trace_env st_breakpoint_traced = Some (handle_interrupts ?mid)"
    by (simp add: op f cb hd d w handler_UNUSED_OPS_def incr_cycles_def flags_def)
  have hi: "handle_interrupts ?mid = ?mid"
    by (simp add: st_breakpoint_traced_def handle_interrupts_def ime_countdown_def
          dispatch_interrupt_def haltbug_countdown_def interrupt_mask_def ime_def power_on_def)
  show ?thesis
    using h1 h2 h3 op by (simp add: sim hi f)
qed

subsection \<open>Delayed toggling of IME\<close>

text \<open>
  Against claim C3 as stated: starting with IME set, EI then DI leave IME set when DI
  retires, with a toggle of -1 pending; after the next instruction IME is clear.
\<close>

theorem ei_then_di_drops_enable:
  "ime st_ei_di \<and> memory st_ei_di (pc st_ei_di) = 0xFB \<and> memory st_ei_di (pc st_ei_di + 1) = 0xF3 \<and>
   map_option ime
     (Option.bind (simulate test_env st_ei_di) (simulate test_env)) = Some True \<and>
   map_option m_intr_pending
     (Option.bind (simulate test_env st_ei_di) (simulate test_env)) = Some (- 1) \<and>
   map_option ime
     (Option.bind (Option.bind (simulate test_env st_ei_di) (simulate test_env))
        (simulate test_env)) = Some False"
  by (simp add: st_ei_di_def cpu_defs)

text \<open>
  Claim C3, amended. Executing EI and then DI as adjacent instructions, with no break
  and no interrupt serviced (IME clear, or no enabled interrupt pending), leaves IME
  unchanged from its value before EI at the moment the DI instruction retires, for
  every initial value of IME. The two toggles do not collapse: the toggle of DI
  replaces that of EI and is still pending, at -1, when DI retires, and every
  following step that reaches its interrupt-handling point with the toggle still at -1
  ends with IME false.
\<close>

theorem ei_then_di_leaves_di_pending:
  assumes "\<not> is_halting s" and "\<not> m_break s" and "m_break_steps_cnt s = 0"
    and "Mapping.is_empty (m_breakpoints s)"
    and "\<not> (ime s \<and> interrupt_mask s \<noteq> 0)"
    and "memory s (pc s) = 0xFB" and "memory s (pc s + 1) = 0xF3"
    and "handler e instr_DI_EI = handler_DI_EI"
  shows "\<exists>s1 s2. simulate e s = Some s1 \<and> simulate e s1 = Some s2 \<and>
           ime s1 = ime s \<and> m_intr_pending s1 = 1 \<and>
           ime s2 = ime s \<and> m_intr_pending s2 = - 1 \<and>
           (\<forall>mid. before_interrupts e s2 = Some mid \<and> m_intr_pending mid = - 1 \<longrightarrow>
                  (\<exists>s3. simulate e s2 = Some s3 \<and> \<not> ime s3))"
proof -
  have q: "undisturbed s" using assms(1-5) by (simp add: undisturbed_def)
  from step_DI_EI [OF q assms(6) _ assms(8)]
  obtain s1 where s1: "simulate e s = Some s1" "undisturbed s1" "memory s1 = memory s"
    "pc s1 = pc s + 1" "ime s1 = ime s" "m_intr_pending s1 = 1"
    by auto
  have "memory s1 (pc s1) = 0xF3" using s1(3,4) assms(7) by simp
  from step_DI_EI [OF s1(2) this _ assms(8)]
  obtain s2 where s2: "simulate e s1 = Some s2" "ime s2 = ime s1" "m_intr_pending s2 = - 1"
    by auto
  have "\<forall>mid. before_interrupts e s2 = Some mid \<and> m_intr_pending mid = - 1 \<longrightarrow>
                  (\<exists>s3. simulate e s2 = Some s3 \<and> \<not> ime s3)"
    by (auto simp add: simulate_split di_pending_completes)
  with s1 s2 show ?thesis by auto
qed

theorem ei_then_di_leaves_di_pending_witness:
  "\<not> is_halting st_ei_di_masked \<and> \<not> m_break st_ei_di_masked \<and> m_break_steps_cnt st_ei_di_masked = 0 \<and>
   Mapping.is_empty (m_breakpoints st_ei_di_masked) \<and>
   \<not> (ime st_ei_di_masked \<and> interrupt_mask st_ei_di_masked \<noteq> 0) \<and>
   memory st_ei_di_masked (pc st_ei_di_masked) = 0xFB \<and> memory st_ei_di_masked (pc st_ei_di_masked + 1) = 0xF3 \<and>
   handler test_env instr_DI_EI = handler_DI_EI \<and>
   map_option ime (Option.bind (simulate test_env st_ei_di_masked) (simulate test_env))
     = Some (ime st_ei_di_masked) \<and>
   map_option m_intr_pending (Option.bind (simulate test_env st_ei_di_masked) (simulate test_env))
     = Some (- 1) \<and>
   map_option m_intr_pending
     (Option.bind (Option.bind (simulate test_env st_ei_di_masked) (simulate test_env))
        (before_interrupts test_env)) = Some (- 1) \<and>
   map_option ime
     (Option.bind (Option.bind (simulate test_env st_ei_di_masked) (simulate test_env))
        (simulate test_env)) = Some False"
proof -
  have h: "\<not> is_halting st_ei_di_masked" "\<not> m_break st_ei_di_masked" "m_break_steps_cnt st_ei_di_masked = 0"
    "Mapping.is_empty (m_breakpoints st_ei_di_masked)"
    "\<not> (ime st_ei_di_masked \<and> interrupt_mask st_ei_di_masked \<noteq> 0)"
    "memory st_ei_di_masked (pc st_ei_di_masked) = 0xFB" "memory st_ei_di_masked (pc st_ei_di_masked + 1) = 0xF3"
    "handler test_env instr_DI_EI = handler_DI_EI"
    by (simp_all add: st_ei_di_masked_def cpu_defs)
  have b: "map_option m_intr_pending
     (Option.bind (Option.bind (simulate test_env st_ei_di_masked) (simulate test_env))
        (before_interrupts test_env)) = Some (- 1)"
    by (simp add: st_ei_di_masked_def before_interrupts_def cpu_defs)
  from ei_then_di_leaves_di_pending [OF h]
  obtain s1 s2 where s: "simulate test_env st_ei_di_masked = Some s1" "simulate test_env s1 = Some s2"
    "ime s2 = ime st_ei_di_masked" "m_intr_pending s2 = - 1"
    and third: "\<forall>mid. before_interrupts test_env s2 = Some mid \<and> m_intr_pending mid = - 1 \<longrightarrow>
                  (\<exists>s3. simulate test_env s2 = Some s3 \<and> \<not> ime s3)"
    by blast
  from b s obtain mid where "before_interrupts test_env s2 = Some mid" "m_intr_pending mid = - 1"
    by auto
  with third obtain s3 where "simulate test_env s2 = Some s3" "\<not> ime s3" by blast
  with h b s show ?thesis by simp
qed

subsection \<open>The cycle counter\<close>




end
